theory Spec2Isabelle
  imports Main
begin

section \<open>The protocol dispatcher of \<^verbatim>\<open>src/mcp-rest.ts\<close>\<close>

text \<open>
  The file registers five request handlers on an MCP \<^verbatim>\<open>Server\<close>, two Express routes
  and the process hooks. The tool handlers, the browser manager, the tool catalogue
  (\<^verbatim>\<open>TOOLS\<close>, \<^verbatim>\<open>TOOL_NAMES\<close>, \<^verbatim>\<open>SERVER_INFO\<close>, \<^verbatim>\<open>CAPABILITIES\<close>) and the SDK transport are
  imported from elsewhere: they are parameters of the definitions below.
\<close>

subsection \<open>Data\<close>

text \<open>
  JSON values as they arrive decoded. An object is an association list; numbers are kept
  to the integers, the dispatcher never computes with them.
\<close>

datatype json =
    JNull
  | JBool bool
  | JNumber int
  | JString string
  | JArray "json list"
  | JObject "(string \<times> json) list"

text \<open>
  The \<^verbatim>\<open>arguments\<close> member of a tool call: a JSON object, or \<open>None\<close> when it is
  \<^verbatim>\<open>undefined\<close> (the request schema makes it optional).
\<close>

type_synonym args = "(string \<times> json) list"

record content_block =
  type :: string
  "text" :: string

text \<open>\<^verbatim>\<open>isError\<close> may be absent from what a handler returns, hence the option.\<close>

record tool_response =
  content :: "content_block list"
  isError :: "bool option"

record tool_call_request =
  name :: string
  arguments :: "args option"

text \<open>
  A value of JavaScript, as far as the dispatcher looks at it: a string, or something else
  (the type \<open>'e\<close>, left open). A thrown value is an instance of \<^verbatim>\<open>Error\<close>, given by its
  \<^verbatim>\<open>message\<close> property (a string unless somebody stored another value there), or any other
  value.
\<close>

datatype 'e js = Str string | Other 'e

datatype 'e thrown = Error "'e js" | NotAnError "'e js"

text \<open>
  The conditions the process hooks are registered for: an exception nobody caught, a
  rejection nobody handled, a termination signal.
\<close>

datatype 'e fatal = uncaughtException "'e thrown" | unhandledRejection "'e thrown" | signal string

text \<open>
  The keys of the imported \<^verbatim>\<open>TOOL_NAMES\<close> object, in the order of the \<^verbatim>\<open>case\<close> labels of the
  dispatcher's \<^verbatim>\<open>switch\<close> (\<open>TYPE'\<close> is the key \<^verbatim>\<open>TYPE\<close>). The object itself is a function
  from its keys to the names: the names are defined outside this file.
\<close>

datatype tool =
    BROWSER_INIT
  | NAVIGATE
  | GET_CONTENT
  | CLICK
  | TYPE'
  | WAIT
  | BROWSER_CLOSE
  | SOLVE_CAPTCHA
  | RANDOM_SCROLL
  | FIND_SELECTOR
  | SAVE_CONTENT_AS_MARKDOWN

definition tools :: "tool list" where
  "tools = [BROWSER_INIT, NAVIGATE, GET_CONTENT, CLICK, TYPE', WAIT, BROWSER_CLOSE,
            SOLVE_CAPTCHA, RANDOM_SCROLL, FIND_SELECTOR, SAVE_CONTENT_AS_MARKDOWN]"

text \<open>
  The call expressions of the \<^verbatim>\<open>switch\<close>, one constructor for each imported handler, with
  the actual parameters the call passes. \<^verbatim>\<open>handleBrowserClose()\<close> and
  \<^verbatim>\<open>handleRandomScroll()\<close> pass none; the casts \<^verbatim>\<open>args as unknown as NavigateArgs\<close> exist for
  the type checker only and pass \<^verbatim>\<open>args\<close> as it is, \<^verbatim>\<open>undefined\<close> included.
\<close>

datatype call =
    handleBrowserInit args
  | handleNavigate "args option"
  | handleGetContent args
  | handleClick "args option"
  | handleType "args option"
  | handleWait "args option"
  | handleBrowserClose
  | handleSolveCaptcha "args option"
  | handleRandomScroll
  | handleFindSelector "args option"
  | handleSaveContentAsMarkdown "args option"

text \<open>The actual parameters of a call expression, as a list.\<close>

fun passed :: "call \<Rightarrow> args option list" where
  "passed (handleBrowserInit a) = [Some a]"
| "passed (handleNavigate a) = [a]"
| "passed (handleGetContent a) = [Some a]"
| "passed (handleClick a) = [a]"
| "passed (handleType a) = [a]"
| "passed (handleWait a) = [a]"
| "passed handleBrowserClose = []"
| "passed (handleSolveCaptcha a) = [a]"
| "passed handleRandomScroll = []"
| "passed (handleFindSelector a) = [a]"
| "passed (handleSaveContentAsMarkdown a) = [a]"

text \<open>
  What \<^verbatim>\<open>console.error\<close> and \<^verbatim>\<open>console.log\<close> write, one constructor for each call in the
  file, carrying the values the message is formatted from. The last two are not lines
  of this file: they stand for what the lifecycle guard logs (see the process hooks).
\<close>

datatype 'e console =
    InitializeRequestReceived string json
  | ToolsListRequested
  | ToolCallReceived string "args option"
  | ToolFailed string "'e js"
  | ErrorHandlingMcpRequest "'e thrown"
  | ProcessCleanupTriggered
  | ServerRunning string
  | AvailableTools nat
  | ContentPriorityMode
  | FailedToStart "'e thrown"
  | UncaughtException "'e thrown"
  | UnhandledRejection "'e thrown"
  | CleanupFailed "'e thrown"
  | FatalCondition "'e fatal"

subsection \<open>Handshake and catalogue queries\<close>

record ('c, 'i) initialize_result =
  protocolVersion :: string
  capabilities :: 'c
  serverInfo :: 'i

text \<open>
  The handler of \<^verbatim>\<open>InitializeRequestSchema\<close>. The request is its protocol version and the
  rest of it (logged, otherwise unused). Every handler returns its result and what it
  wrote to the console.
\<close>

definition initialize ::
  "'c \<Rightarrow> 'i \<Rightarrow> string \<Rightarrow> json \<Rightarrow> ('c, 'i) initialize_result \<times> 'e console list" where
  "initialize CAPABILITIES SERVER_INFO clientProtocolVersion request =
     (\<lparr>protocolVersion = clientProtocolVersion,
       capabilities = CAPABILITIES,
       serverInfo = SERVER_INFO\<rparr>,
      [InitializeRequestReceived clientProtocolVersion request])"

definition listTools :: "'d list \<Rightarrow> 'd list \<times> 'e console list" where
  "listTools TOOLS = (TOOLS, [ToolsListRequested])"

definition listResources :: "json list \<times> 'e console list" where
  "listResources = ([], [])"

definition listPrompts :: "json list \<times> 'e console list" where
  "listPrompts = ([], [])"

subsection \<open>The tool call handler\<close>

text \<open>\<^verbatim>\<open>args || {}\<close>: an object is truthy, so only \<^verbatim>\<open>undefined\<close> becomes the empty object.\<close>

definition or_empty :: "args option \<Rightarrow> args" where
  "or_empty a = (case a of None \<Rightarrow> [] | Some m \<Rightarrow> m)"

text \<open>
  The \<^verbatim>\<open>switch (name)\<close>: the labels are compared with \<^verbatim>\<open>===\<close> from the top, the first equal
  one is taken. \<open>None\<close> is the \<^verbatim>\<open>default\<close> branch.
\<close>

definition switch :: "(tool \<Rightarrow> string) \<Rightarrow> string \<Rightarrow> args option \<Rightarrow> call option" where
  "switch TOOL_NAMES nm a =
     (if nm = TOOL_NAMES BROWSER_INIT then Some (handleBrowserInit (or_empty a))
      else if nm = TOOL_NAMES NAVIGATE then Some (handleNavigate a)
      else if nm = TOOL_NAMES GET_CONTENT then Some (handleGetContent (or_empty a))
      else if nm = TOOL_NAMES CLICK then Some (handleClick a)
      else if nm = TOOL_NAMES TYPE' then Some (handleType a)
      else if nm = TOOL_NAMES WAIT then Some (handleWait a)
      else if nm = TOOL_NAMES BROWSER_CLOSE then Some handleBrowserClose
      else if nm = TOOL_NAMES SOLVE_CAPTCHA then Some (handleSolveCaptcha a)
      else if nm = TOOL_NAMES RANDOM_SCROLL then Some handleRandomScroll
      else if nm = TOOL_NAMES FIND_SELECTOR then Some (handleFindSelector a)
      else if nm = TOOL_NAMES SAVE_CONTENT_AS_MARKDOWN then Some (handleSaveContentAsMarkdown a)
      else None)"

text \<open>
  The handlers are the environment \<open>H\<close>: what a call does to the state \<open>'w\<close> behind the
  handlers (the browser) and whether it returns a response or throws. The body of the
  \<^verbatim>\<open>try\<close>: the awaited call, or the \<^verbatim>\<open>throw\<close> of the default branch.
\<close>

type_synonym ('e, 'w) handlers = "call \<Rightarrow> 'w \<Rightarrow> ('e thrown + tool_response) \<times> 'w"

definition try_block ::
  "('e, 'w) handlers \<Rightarrow> (tool \<Rightarrow> string) \<Rightarrow> tool_call_request \<Rightarrow> 'w
     \<Rightarrow> ('e thrown + tool_response) \<times> 'w" where
  "try_block H TOOL_NAMES request w =
     (case switch TOOL_NAMES (name request) (arguments request) of
        Some c \<Rightarrow> H c w
      | None \<Rightarrow> (Inl (Error (Str (''Unknown tool: '' @ name request))), w))"

text \<open>
  Turning a value into a string can throw. \<^verbatim>\<open>String(v)\<close> and the conversion inside a
  template literal are functions of the language, not of this file: two parameters, each
  giving the string or what the conversion throws (they differ on symbols; both throw on
  an object without a usable \<^verbatim>\<open>toString\<close>, such as \<^verbatim>\<open>Object.create(null)\<close>). A string
  converts to itself.
\<close>

type_synonym 'e conversion = "'e \<Rightarrow> 'e thrown + string"

fun convert :: "'e conversion \<Rightarrow> 'e js \<Rightarrow> 'e thrown + string" where
  "convert f (Str s) = Inr s"
| "convert f (Other v) = f v"

text \<open>\<^verbatim>\<open>const errorMessage = error instanceof Error ? error.message : String(error)\<close>\<close>

fun errorMessage :: "'e conversion \<Rightarrow> 'e thrown \<Rightarrow> 'e thrown + 'e js" where
  "errorMessage String (Error message) = Inr message"
| "errorMessage String (NotAnError v) =
     (case convert String v of Inl fault \<Rightarrow> Inl fault | Inr s \<Rightarrow> Inr (Str s))"

text \<open>The cross mark U+274C that opens the failure text, as its three UTF-8 bytes.\<close>

definition cross_mark :: string where
  "cross_mark = [CHR 0xE2, CHR 0x9D, CHR 0x8C]"

definition failure_envelope :: "string \<Rightarrow> tool_response" where
  "failure_envelope msg =
     \<lparr>content = [\<lparr>type = ''text'', text = cross_mark @ '' Tool execution failed: '' @ msg\<rparr>],
      isError = Some True\<rparr>"

text \<open>
  The body of the \<^verbatim>\<open>catch\<close>, statement by statement: the message is computed, written to
  the console, and put into the template literal of the envelope. Nothing guards these
  statements: what a conversion throws leaves the handler (\<open>Inl\<close>).
\<close>

definition catch_block ::
  "'e conversion \<Rightarrow> 'e conversion \<Rightarrow> string \<Rightarrow> 'e thrown
     \<Rightarrow> ('e thrown + tool_response) \<times> 'e console list" where
  "catch_block String ToString nm error =
     (case errorMessage String error of
        Inl fault \<Rightarrow> (Inl fault, [])
      | Inr msg \<Rightarrow>
          (case convert ToString msg of
             Inl fault \<Rightarrow> (Inl fault, [ToolFailed nm msg])
           | Inr s \<Rightarrow> (Inr (failure_envelope s), [ToolFailed nm msg])))"

text \<open>
  The handler of \<^verbatim>\<open>CallToolRequestSchema\<close>: the response it resolves with or the fault it
  rejects with, the state the handlers left and the console output.
\<close>

definition callTool ::
  "'e conversion \<Rightarrow> 'e conversion \<Rightarrow> ('e, 'w) handlers \<Rightarrow> (tool \<Rightarrow> string)
     \<Rightarrow> tool_call_request \<Rightarrow> 'w \<Rightarrow> ('e thrown + tool_response) \<times> 'w \<times> 'e console list" where
  "callTool String ToString H TOOL_NAMES request w =
     (case try_block H TOOL_NAMES request w of
        (Inr result, w') \<Rightarrow>
          (Inr result, w', [ToolCallReceived (name request) (arguments request)])
      | (Inl error, w') \<Rightarrow>
          (case catch_block String ToString (name request) error of
             (outcome, written) \<Rightarrow>
               (outcome, w', ToolCallReceived (name request) (arguments request) # written)))"

subsection \<open>The HTTP routes\<close>

text \<open>
  The Express response object, as far as the routes use it: the status code (200 until
  somebody sets it), the body written so far, and whether the head has gone out.
  \<^verbatim>\<open>res.status(c)\<close> only stores the code; \<^verbatim>\<open>res.json(v)\<close> and \<^verbatim>\<open>res.send(s)\<close> set headers
  and so throw once the head has been sent. The model starts where a route's function is
  entered, the body already decoded by \<^verbatim>\<open>express.json()\<close> (which lets objects and arrays
  through and nothing else).
\<close>

datatype body = Json json | Text string

record response =
  statusCode :: nat
  body :: "body option"
  headersSent :: bool

definition fresh :: response where
  "fresh = \<lparr>statusCode = 200, body = None, headersSent = False\<rparr>"

definition status :: "nat \<Rightarrow> response \<Rightarrow> response" where
  "status code res = res\<lparr>statusCode := code\<rparr>"

definition write_body :: "body \<Rightarrow> response \<Rightarrow> 'e thrown + response" where
  "write_body b res =
     (if headersSent res
      then Inl (Error (Str ''Cannot set headers after they are sent to the client''))
      else Inr (res\<lparr>body := Some b, headersSent := True\<rparr>))"

definition json_reply :: "json \<Rightarrow> response \<Rightarrow> 'e thrown + response" where
  "json_reply v res = write_body (Json v) res"

definition send :: "string \<Rightarrow> response \<Rightarrow> 'e thrown + response" where
  "send s res = write_body (Text s) res"

text \<open>
  \<^verbatim>\<open>transport.handleRequest(req, res, req.body)\<close> belongs to the SDK: a parameter. It gets
  the decoded body and the response object, works on the state \<open>'s\<close> behind it (the
  session, the server's handlers and what they reach), writes the response itself and
  returns, or throws.
\<close>

type_synonym ('e, 's) transport =
  "json \<Rightarrow> response \<Rightarrow> 's \<Rightarrow> ('e thrown + unit) \<times> response \<times> 's"

text \<open>
  \<^verbatim>\<open>app.post('/mcp', ...)\<close>: the response the client gets (or the fault the route's own
  function ends with), the state and the console output.
\<close>

definition post_mcp ::
  "('e, 's) transport \<Rightarrow> json \<Rightarrow> 's \<Rightarrow> ('e thrown + response) \<times> 's \<times> 'e console list" where
  "post_mcp handleRequest req_body s =
     (case handleRequest req_body fresh s of
        (Inr u, res, s') \<Rightarrow> (Inr res, s', [])
      | (Inl error, res, s') \<Rightarrow>
          (json_reply (JObject [(''error'', JString ''Internal Server Error'')]) (status 500 res),
           s', [ErrorHandlingMcpRequest error]))"

text \<open>\<^verbatim>\<open>app.get('/health', ...)\<close>\<close>

definition get_health :: "'s \<Rightarrow> ('e thrown + response) \<times> 's \<times> 'e console list" where
  "get_health s = (send ''Server is healthy'' (status 200 fresh), s, [])"

text \<open>
  The two routes together, and a server that has answered a list of requests: its state
  and everything written to the console so far.
\<close>

datatype request = POST_mcp json | GET_health

fun serve ::
  "('e, 's) transport \<Rightarrow> request \<Rightarrow> 's \<Rightarrow> ('e thrown + response) \<times> 's \<times> 'e console list" where
  "serve handleRequest (POST_mcp req_body) s = post_mcp handleRequest req_body s"
| "serve handleRequest GET_health s = get_health s"

fun after ::
  "('e, 's) transport \<Rightarrow> request list \<Rightarrow> 's \<times> 'e console list \<Rightarrow> 's \<times> 'e console list" where
  "after handleRequest [] sc = sc"
| "after handleRequest (r # rs) (s, written) =
     (case serve handleRequest r s of
        (reply, s', out) \<Rightarrow> after handleRequest rs (s', written @ out))"

subsection \<open>Startup\<close>

text \<open>\<^verbatim>\<open>process.env.SERVER_PORT || 7777\<close>: unset and the empty string are falsy.\<close>

definition PORT :: "string option \<Rightarrow> string" where
  "PORT env = (case env of None \<Rightarrow> ''7777'' | Some p \<Rightarrow> if p = [] then ''7777'' else p)"

text \<open>
  \<^verbatim>\<open>app.listen(PORT, callback)\<close> belongs to Express and Node: a parameter, giving for a port
  how the call ends. It binds the port and runs the callback; or throws at once (a port
  that is no port), which the \<^verbatim>\<open>catch\<close> of the chain receives; or fails later through the
  server's \<^verbatim>\<open>error\<close> event (a port already taken), which has no listener in this file and
  reaches nobody here.
\<close>

datatype 'e listen = Bound | Throws "'e thrown" | ErrorEvent "'e thrown"

datatype 'e started =
    Listening string "'e console list"
  | NotListening "'e console list"
  | Unhandled "'e thrown"

text \<open>
  \<^verbatim>\<open>server.connect(transport).then(...).catch(...)\<close>, given how the connect ended. \<^verbatim>\<open>TOOLS\<close> is
  used for its length alone.
\<close>

definition start ::
  "'e thrown + unit \<Rightarrow> (string \<Rightarrow> 'e listen) \<Rightarrow> string option \<Rightarrow> 'd list \<Rightarrow> 'e started" where
  "start connected listen env TOOLS =
     (case connected of
        Inl error \<Rightarrow> NotListening [FailedToStart error]
      | Inr u \<Rightarrow>
          (case listen (PORT env) of
             Bound \<Rightarrow>
               Listening (PORT env)
                 [ServerRunning (PORT env), AvailableTools (length TOOLS), ContentPriorityMode]
           | Throws error \<Rightarrow> NotListening [FailedToStart error]
           | ErrorEvent error \<Rightarrow> Unhandled error))"

text \<open>
  Modelled from the spec: the entries of \<^verbatim>\<open>TOOLS\<close> (\<^verbatim>\<open>utils/tool-definitions.js\<close> is not part
  of the source at hand). A ToolDescriptor is a name, a description and an input schema.
\<close>

record tool_descriptor =
  descriptor_name :: string
  description :: string
  inputSchema :: json

text \<open>
  The registry side of the consistency the spec asks for: every name of \<^verbatim>\<open>TOOL_NAMES\<close> has
  exactly one descriptor in \<^verbatim>\<open>TOOLS\<close>.
\<close>

definition one_descriptor_each :: "(tool \<Rightarrow> string) \<Rightarrow> tool_descriptor list \<Rightarrow> bool" where
  "one_descriptor_each TOOL_NAMES TOOLS =
     list_all (\<lambda>t. length (filter (\<lambda>d. descriptor_name d = TOOL_NAMES t) TOOLS) = 1) tools"

subsection \<open>Process hooks\<close>

datatype browser_op = closeBrowser | forceKillAllChromeProcesses

text \<open>
  What happens in order: a line on the console, a call into the browser manager, the step
  toward exit.
\<close>

datatype 'e effect = Console "'e console" | Invoke browser_op | ProcessExit

type_synonym ('e, 'w) browser_manager = "browser_op \<Rightarrow> 'w \<Rightarrow> ('e thrown + unit) \<times> 'w"

text \<open>
  The callback handed to \<^verbatim>\<open>setupProcessCleanup\<close>, over any browser manager \<open>B\<close>: the second
  call is awaited after the first, and nothing in the callback catches what the first
  throws.
\<close>

definition cleanup ::
  "('e, 'w) browser_manager \<Rightarrow> 'w \<Rightarrow> ('e thrown + unit) \<times> 'w \<times> 'e effect list" where
  "cleanup B w =
     (case B closeBrowser w of
        (Inl error, w1) \<Rightarrow>
          (Inl error, w1, [Console ProcessCleanupTriggered, Invoke closeBrowser])
      | (Inr u, w1) \<Rightarrow>
          (case B forceKillAllChromeProcesses w1 of
             (r, w2) \<Rightarrow>
               (r, w2, [Console ProcessCleanupTriggered, Invoke closeBrowser,
                        Invoke forceKillAllChromeProcesses])))"






subsection \<open>A concrete instance\<close>

text \<open>
  Values, names, handlers and a transport to run the definitions on. Two values that are
  no strings: a symbol, which \<^verbatim>\<open>String\<close> converts and a template literal does not, and
  the object \<^verbatim>\<open>Object.create(null)\<close>, which neither converts.
\<close>

datatype exotic = Symbol | BareObject

fun String_exotic :: "exotic conversion" where
  "String_exotic Symbol = Inr ''Symbol()''"
| "String_exotic BareObject = Inl (Error (Str ''Cannot convert object to primitive value''))"

fun ToString_exotic :: "exotic conversion" where
  "ToString_exotic Symbol = Inl (Error (Str ''Cannot convert a Symbol value to a string''))"
| "ToString_exotic BareObject = Inl (Error (Str ''Cannot convert object to primitive value''))"

text \<open>The tool names in snake case.\<close>

fun snake_names :: "tool \<Rightarrow> string" where
  "snake_names BROWSER_INIT = ''browser_init''"
| "snake_names NAVIGATE = ''navigate''"
| "snake_names GET_CONTENT = ''get_content''"
| "snake_names CLICK = ''click''"
| "snake_names TYPE' = ''type''"
| "snake_names WAIT = ''wait''"
| "snake_names BROWSER_CLOSE = ''browser_close''"
| "snake_names SOLVE_CAPTCHA = ''solve_captcha''"
| "snake_names RANDOM_SCROLL = ''random_scroll''"
| "snake_names FIND_SELECTOR = ''find_selector''"
| "snake_names SAVE_CONTENT_AS_MARKDOWN = ''save_content_as_markdown''"

text \<open>
  Handlers over a counter of the calls made: \<^verbatim>\<open>navigate\<close> insists on an http URL and throws
  an \<^verbatim>\<open>Error\<close> or a string otherwise, \<^verbatim>\<open>solve_captcha\<close> rejects with the bare object,
  \<^verbatim>\<open>browser_close\<close> resets the counter.
\<close>

definition done_response :: "string \<Rightarrow> tool_response" where
  "done_response s = \<lparr>content = [\<lparr>type = ''text'', text = s\<rparr>], isError = None\<rparr>"

fun strict_handlers :: "(exotic, nat) handlers" where
  "strict_handlers (handleNavigate a) w =
     (case a of
        Some [(''url'', JString u)] \<Rightarrow>
          if take 4 u = ''http'' then (Inr (done_response u), Suc w)
          else (Inl (Error (Str ''Invalid URL'')), w)
      | _ \<Rightarrow> (Inl (NotAnError (Str ''url is required'')), w))"
| "strict_handlers (handleSolveCaptcha a) w = (Inl (NotAnError (Other BareObject)), w)"
| "strict_handlers handleBrowserClose w = (Inr (done_response ''closed''), 0)"
| "strict_handlers c w = (Inr (done_response ''ok''), Suc w)"



text \<open>Two catalogues of one descriptor each.\<close>

definition navigate_only :: "tool_descriptor list" where
  "navigate_only =
     [\<lparr>descriptor_name = ''navigate'', description = ''Navigate to a URL'',
       inputSchema = JObject [(''type'', JString ''object'')]\<rparr>]"

definition stray_only :: "tool_descriptor list" where
  "stray_only =
     [\<lparr>descriptor_name = ''teleport'', description = ''Not a tool'', inputSchema = JNull\<rparr>]"

section \<open>Properties\<close>

subsection \<open>Routing\<close>

lemma tools_complete: "t \<in> set tools"
  by (cases t) (simp_all add: tools_def)

lemma names_eq_iff:
  assumes "distinct (map TOOL_NAMES tools)"
  shows "TOOL_NAMES t = TOOL_NAMES t' \<longleftrightarrow> t = t'"
proof -
  have "inj_on TOOL_NAMES (set tools)"
    using assms by (simp add: distinct_map)
  then show ?thesis
    using tools_complete by (auto dest: inj_onD)
qed

lemma switch_known:
  assumes "distinct (map TOOL_NAMES tools)"
  shows "switch TOOL_NAMES (TOOL_NAMES BROWSER_INIT) a = Some (handleBrowserInit (or_empty a))"
    and "switch TOOL_NAMES (TOOL_NAMES NAVIGATE) a = Some (handleNavigate a)"
    and "switch TOOL_NAMES (TOOL_NAMES GET_CONTENT) a = Some (handleGetContent (or_empty a))"
    and "switch TOOL_NAMES (TOOL_NAMES CLICK) a = Some (handleClick a)"
    and "switch TOOL_NAMES (TOOL_NAMES TYPE') a = Some (handleType a)"
    and "switch TOOL_NAMES (TOOL_NAMES WAIT) a = Some (handleWait a)"
    and "switch TOOL_NAMES (TOOL_NAMES BROWSER_CLOSE) a = Some handleBrowserClose"
    and "switch TOOL_NAMES (TOOL_NAMES SOLVE_CAPTCHA) a = Some (handleSolveCaptcha a)"
    and "switch TOOL_NAMES (TOOL_NAMES RANDOM_SCROLL) a = Some handleRandomScroll"
    and "switch TOOL_NAMES (TOOL_NAMES FIND_SELECTOR) a = Some (handleFindSelector a)"
    and "switch TOOL_NAMES (TOOL_NAMES SAVE_CONTENT_AS_MARKDOWN) a =
           Some (handleSaveContentAsMarkdown a)"
  by (simp_all add: switch_def names_eq_iff [OF assms])

lemma switch_unknown:
  assumes "nm \<notin> set (map TOOL_NAMES tools)"
  shows "switch TOOL_NAMES nm a = None"
  using assms by (simp add: tools_def switch_def)

lemma snake_names_distinct: "distinct (map snake_names tools)"
  by (simp add: tools_def)

subsection \<open>The tool call handler\<close>

text \<open>
  What the handler makes of a call the \<^verbatim>\<open>switch\<close> selects: the handler's response as it
  is, or what the \<^verbatim>\<open>catch\<close> makes of the value it threw.
\<close>

lemma callTool_selected:
  assumes "switch TOOL_NAMES (name request) (arguments request) = Some c"
  shows "callTool String ToString H TOOL_NAMES request w =
           (case H c w of
              (Inr result, w') \<Rightarrow>
                (Inr result, w', [ToolCallReceived (name request) (arguments request)])
            | (Inl error, w') \<Rightarrow>
                (fst (catch_block String ToString (name request) error), w',
                 ToolCallReceived (name request) (arguments request)
                   # snd (catch_block String ToString (name request) error)))"
  using assms by (simp add: callTool_def try_block_def split: prod.splits sum.splits)

text \<open>
  When the handler throws and both conversions of the \<^verbatim>\<open>catch\<close> go through, the failure
  envelope is returned, with the \<^verbatim>\<open>message\<close> of an \<^verbatim>\<open>Error\<close> and with \<^verbatim>\<open>String\<close> of any other
  value.
\<close>

lemma callTool_failure_envelope:
  assumes "switch TOOL_NAMES (name request) (arguments request) = Some c"
      and "H c w = (Inl error, w')"
      and "errorMessage String error = Inr msg"
      and "convert ToString msg = Inr s"
  shows "fst (callTool String ToString H TOOL_NAMES request w) =
           Inr \<lparr>content =
                  [\<lparr>type = ''text'', text = cross_mark @ '' Tool execution failed: '' @ s\<rparr>],
                isError = Some True\<rparr>"
  using assms
  by (simp add: callTool_selected catch_block_def failure_envelope_def)

text \<open>
  C1 fails on the code where the \<^verbatim>\<open>catch\<close> itself throws. \<^verbatim>\<open>solve_captcha\<close> rejects with
  \<^verbatim>\<open>Object.create(null)\<close>; it is no \<^verbatim>\<open>Error\<close>, so the \<^verbatim>\<open>catch\<close> calls \<^verbatim>\<open>String\<close> on it, which
  throws a \<^verbatim>\<open>TypeError\<close>; no envelope is built and the dispatcher rejects with that error.
\<close>

theorem callTool_fault_escapes:
  "callTool String_exotic ToString_exotic strict_handlers snake_names
     \<lparr>name = ''solve_captcha'', arguments = Some []\<rparr> 3 =
   (Inl (Error (Str ''Cannot convert object to primitive value'')), 3,
    [ToolCallReceived ''solve_captcha'' (Some [])])"
  by (simp add: callTool_def try_block_def switch_def catch_block_def)

text \<open>
  C2. A name that is none of the \<^verbatim>\<open>TOOL_NAMES\<close> selects no call expression: whatever the
  handlers and the conversions are, the dispatcher returns the failure envelope with
  \<^verbatim>\<open>isError: true\<close> for "Unknown tool: (name)" and leaves the state behind the handlers
  as it was.
\<close>

theorem callTool_unknown_tool:
  assumes "nm \<notin> set (map TOOL_NAMES tools)"
  shows "switch TOOL_NAMES nm a = None
       \<and> callTool String ToString H TOOL_NAMES \<lparr>name = nm, arguments = a\<rparr> w =
           (Inr \<lparr>content =
                   [\<lparr>type = ''text'',
                     text = cross_mark @ '' Tool execution failed: Unknown tool: '' @ nm\<rparr>],
                 isError = Some True\<rparr>,
            w,
            [ToolCallReceived nm a, ToolFailed nm (Str (''Unknown tool: '' @ nm))])"
  using switch_unknown [OF assms, of a]
  by (simp add: callTool_def try_block_def catch_block_def failure_envelope_def)

text \<open>C2 at the name \<^verbatim>\<open>unknown_tool\<close>.\<close>

theorem callTool_unknown_tool_witness:
  "''unknown_tool'' \<notin> set (map snake_names tools)
   \<and> switch snake_names ''unknown_tool'' (Some []) = None
   \<and> callTool String_exotic ToString_exotic strict_handlers snake_names
       \<lparr>name = ''unknown_tool'', arguments = Some []\<rparr> 3 =
       (Inr \<lparr>content =
               [\<lparr>type = ''text'',
                 text = cross_mark @ '' Tool execution failed: Unknown tool: unknown_tool''\<rparr>],
             isError = Some True\<rparr>,
        3,
        [ToolCallReceived ''unknown_tool'' (Some []),
         ToolFailed ''unknown_tool'' (Str ''Unknown tool: unknown_tool'')])"
proof -
  have absent: "''unknown_tool'' \<notin> set (map snake_names tools)"
    by (simp add: tools_def)
  show ?thesis
    using absent
      callTool_unknown_tool [OF absent, of "Some []" String_exotic ToString_exotic
        strict_handlers 3]
    by simp
qed

subsection \<open>Handshake and catalogue\<close>

text \<open>
  C3. The handshake answers with the protocol version the caller submitted, whatever
  string it is, together with \<^verbatim>\<open>CAPABILITIES\<close> and \<^verbatim>\<open>SERVER_INFO\<close> as imported.
\<close>

theorem initialize_echo:
  "fst (initialize CAPABILITIES SERVER_INFO version request) =
     \<lparr>protocolVersion = version, capabilities = CAPABILITIES, serverInfo = SERVER_INFO\<rparr>"
  by (simp add: initialize_def)

text \<open>
  C9. ListTools returns \<^verbatim>\<open>TOOLS\<close> unchanged, ListResources and ListPrompts return the empty
  list. None of the three handlers reads any state, so earlier requests cannot matter.
\<close>

theorem catalogue_queries:
  "fst (listTools TOOLS) = TOOLS \<and> fst listResources = [] \<and> fst listPrompts = []"
  by (simp add: listTools_def listResources_def listPrompts_def)

subsection \<open>The routes\<close>




text \<open>
  C8. \<^verbatim>\<open>GET /health\<close> answers 200 with the text "Server is healthy" after any list of
  earlier requests, whatever the transport did on them; it leaves the state as it was
  and writes nothing to the console, so repeating it changes nothing.
\<close>

theorem health_fixed:
  "serve handleRequest GET_health (fst (after handleRequest history sc)) =
     (Inr \<lparr>statusCode = 200, body = Some (Text ''Server is healthy''), headersSent = True\<rparr>,
      fst (after handleRequest history sc), [])"
  by (simp add: get_health_def send_def write_body_def status_def fresh_def)

subsection \<open>What the handlers are passed\<close>




text \<open>
  C10. For \<^verbatim>\<open>BROWSER_CLOSE\<close> and \<^verbatim>\<open>RANDOM_SCROLL\<close> (the tool names pairwise different) the
  dispatcher invokes the bound handler, \<^verbatim>\<open>handleBrowserClose()\<close> and \<^verbatim>\<open>handleRandomScroll()\<close>,
  with no argument, whatever arguments the request carries: the body of the \<^verbatim>\<open>try\<close> is that
  call, the dispatcher returns the handler's response as it is, or what the \<^verbatim>\<open>catch\<close>
  makes of the value it threw, with the state the handler left. For any two argument
  mappings the outcome and the state are therefore the same.
\<close>

theorem zero_argument_calls:
  assumes "distinct (map TOOL_NAMES tools)"
      and "(t, c) = (BROWSER_CLOSE, handleBrowserClose) \<or> (t, c) = (RANDOM_SCROLL, handleRandomScroll)"
  shows "switch TOOL_NAMES (TOOL_NAMES t) a = Some c \<and> passed c = []
       \<and> try_block H TOOL_NAMES \<lparr>name = TOOL_NAMES t, arguments = a\<rparr> w = H c w
       \<and> (\<forall>result w'. H c w = (Inr result, w') \<longrightarrow>
            callTool String ToString H TOOL_NAMES \<lparr>name = TOOL_NAMES t, arguments = a\<rparr> w =
              (Inr result, w', [ToolCallReceived (TOOL_NAMES t) a]))
       \<and> (\<forall>error w'. H c w = (Inl error, w') \<longrightarrow>
            callTool String ToString H TOOL_NAMES \<lparr>name = TOOL_NAMES t, arguments = a\<rparr> w =
              (fst (catch_block String ToString (TOOL_NAMES t) error), w',
               ToolCallReceived (TOOL_NAMES t) a
                 # snd (catch_block String ToString (TOOL_NAMES t) error)))
       \<and> fst (callTool String ToString H TOOL_NAMES \<lparr>name = TOOL_NAMES t, arguments = a\<rparr> w) =
           fst (callTool String ToString H TOOL_NAMES \<lparr>name = TOOL_NAMES t, arguments = a'\<rparr> w)
       \<and> fst (snd (callTool String ToString H TOOL_NAMES
                     \<lparr>name = TOOL_NAMES t, arguments = a\<rparr> w)) =
           fst (snd (callTool String ToString H TOOL_NAMES
                     \<lparr>name = TOOL_NAMES t, arguments = a'\<rparr> w))"
proof -
  have pick: "switch TOOL_NAMES (TOOL_NAMES t) b = Some c" for b
    using assms(2) by (auto simp: switch_known [OF assms(1)])
  have none: "passed c = []"
    using assms(2) by auto
  have body: "try_block H TOOL_NAMES \<lparr>name = TOOL_NAMES t, arguments = b\<rparr> w = H c w" for b
    using pick [of b] by (simp add: try_block_def)
  have whole: "callTool String ToString H TOOL_NAMES \<lparr>name = TOOL_NAMES t, arguments = b\<rparr> w =
      (case H c w of
         (Inr result, w') \<Rightarrow> (Inr result, w', [ToolCallReceived (TOOL_NAMES t) b])
       | (Inl error, w') \<Rightarrow>
           (fst (catch_block String ToString (TOOL_NAMES t) error), w',
            ToolCallReceived (TOOL_NAMES t) b
              # snd (catch_block String ToString (TOOL_NAMES t) error)))" for b
    using pick [of b]
    by (simp add: callTool_def try_block_def split: prod.splits sum.splits)
  show ?thesis
    using pick [of a] none body [of a]
    by (simp add: whole split: prod.splits sum.splits)
qed

text \<open>
  C10 at \<^verbatim>\<open>browser_close\<close>, without arguments and with some: the handler's own response
  comes back, and the counter is reset as the handler leaves it.
\<close>

theorem zero_argument_calls_witness:
  "distinct (map snake_names tools)
   \<and> switch snake_names ''browser_close'' (Some [(''force'', JBool True)]) = Some handleBrowserClose
   \<and> strict_handlers handleBrowserClose 3 = (Inr (done_response ''closed''), 0)
   \<and> callTool String_exotic ToString_exotic strict_handlers snake_names
       \<lparr>name = ''browser_close'', arguments = Some [(''force'', JBool True)]\<rparr> 3 =
       (Inr (done_response ''closed''), 0,
        [ToolCallReceived ''browser_close'' (Some [(''force'', JBool True)])])
   \<and> fst (callTool String_exotic ToString_exotic strict_handlers snake_names
           \<lparr>name = ''browser_close'', arguments = Some [(''force'', JBool True)]\<rparr> 3) =
       fst (callTool String_exotic ToString_exotic strict_handlers snake_names
           \<lparr>name = ''browser_close'', arguments = None\<rparr> 3)"
proof -
  have bound: "(BROWSER_CLOSE, handleBrowserClose) = (BROWSER_CLOSE, handleBrowserClose)
      \<or> (BROWSER_CLOSE, handleBrowserClose) = (RANDOM_SCROLL, handleRandomScroll)"
    by simp
  have returned: "strict_handlers handleBrowserClose 3 = (Inr (done_response ''closed''), 0)"
    by simp
  show ?thesis
    using snake_names_distinct returned
      zero_argument_calls [OF snake_names_distinct bound,
        where a = "Some [(''force'', JBool True)]" and a' = None and H = strict_handlers
          and w = 3 and String = String_exotic and ToString = ToString_exotic]
    by (simp add: callTool_def try_block_def switch_def)
qed

subsection \<open>Registry and routing\<close>

text \<open>
  C7 as stated fails: nothing is checked at startup. With an empty \<^verbatim>\<open>TOOLS\<close>, where no tool
  name has a descriptor, a server whose transport connects and whose port can be bound
  starts listening all the same.
\<close>

theorem startup_check_counterexample:
  "\<not> one_descriptor_each snake_names []
   \<and> (start (Inr ()) (\<lambda>port. Bound) None ([] :: tool_descriptor list) :: exotic started) =
       Listening ''7777'' [ServerRunning ''7777'', AvailableTools 0, ContentPriorityMode]"
  by (simp add: one_descriptor_each_def tools_def start_def PORT_def)

text \<open>
  C7, amended. With pairwise different tool names every key of \<^verbatim>\<open>TOOL_NAMES\<close> has exactly
  one handler binding: its name selects its own call of the \<^verbatim>\<open>switch\<close> and no other. The
  registry is not compared with it at startup: what startup does depends on \<^verbatim>\<open>TOOLS\<close>
  through its length alone.
\<close>

theorem one_binding_each:
  assumes "distinct (map TOOL_NAMES tools)"
  shows "map (\<lambda>t. switch TOOL_NAMES (TOOL_NAMES t) a) tools =
           [Some (handleBrowserInit (or_empty a)), Some (handleNavigate a),
            Some (handleGetContent (or_empty a)), Some (handleClick a), Some (handleType a),
            Some (handleWait a), Some handleBrowserClose, Some (handleSolveCaptcha a),
            Some handleRandomScroll, Some (handleFindSelector a),
            Some (handleSaveContentAsMarkdown a)]
       \<and> (length TOOLS = length TOOLS' \<longrightarrow>
            start connected listen env TOOLS = start connected listen env TOOLS')"
  by (simp add: switch_known [OF assms] tools_def start_def split: sum.splits listen.splits)

text \<open>C7, amended, at the snake-case names and two catalogues of equal length.\<close>

theorem one_binding_each_witness:
  "distinct (map snake_names tools)
   \<and> map (\<lambda>t. switch snake_names (snake_names t) None) tools =
       [Some (handleBrowserInit []), Some (handleNavigate None), Some (handleGetContent []),
        Some (handleClick None), Some (handleType None), Some (handleWait None),
        Some handleBrowserClose, Some (handleSolveCaptcha None), Some handleRandomScroll,
        Some (handleFindSelector None), Some (handleSaveContentAsMarkdown None)]
   \<and> length navigate_only = length stray_only
   \<and> (start (Inr ()) (\<lambda>port. Bound) (Some ''8080'') navigate_only :: exotic started) =
       start (Inr ()) (\<lambda>port. Bound) (Some ''8080'') stray_only"
proof -
  have same_length: "length navigate_only = length stray_only"
    by (simp add: navigate_only_def stray_only_def)
  show ?thesis
    using snake_names_distinct same_length
      one_binding_each [OF snake_names_distinct, where a = None and TOOLS = navigate_only
        and TOOLS' = stray_only and connected = "Inr ()" and env = "Some ''8080''"
        and listen = "\<lambda>port. Bound"]
    by (simp add: or_empty_def)
qed

subsection \<open>Process hooks\<close>

text \<open>
  The callback of this file by itself: it starts with its console line and \<^verbatim>\<open>closeBrowser\<close>,
  and a throw of \<^verbatim>\<open>closeBrowser\<close> ends it there, before the forced termination.
\<close>

lemma cleanup_ends_on_throw:
  assumes "B closeBrowser w = (Inl error, w1)"
  shows "cleanup B w = (Inl error, w1, [Console ProcessCleanupTriggered, Invoke closeBrowser])"
  using assms by (simp add: cleanup_def)


end
